theory Spec2Isabelle
  imports Complex_Main
begin

section \<open>The audio playback timing engine of HealthMateAI\<close>

text \<open>
  This theory embeds the transport logic of \<^verbatim>\<open>src/components/AudioPlayer.tsx\<close>: the React
  state variables and refs of the component, and the handlers that read and write them.

  Conventions of the embedding.
  \<^item> Every time value (seconds) is a rational number. The source computes with IEEE
    doubles; every finite double is a rational, and the arithmetic here is exact, so
    rounding, \<^verbatim>\<open>NaN\<close> and the infinities are outside the model.
  \<^item> The component's \<^verbatim>\<open>useState\<close> variables and \<^verbatim>\<open>useRef\<close> cells are the fields of one
    record. A handler is a function from the record to the updated record. The source
    reads a state variable only before it sets it within one handler, so applying the
    setters in sequence agrees with React's deferred update.
  \<^item> What the browser decides is an argument of the handler: the audio graph clock
    \<^verbatim>\<open>audioContext.currentTime\<close> at the moment of the call, whether the \<^verbatim>\<open>try\<close> block
    of \<^verbatim>\<open>playAudio\<close> throws, whether \<^verbatim>\<open>setValueAtTime\<close> throws, and the outcome of
    decoding a payload.
  \<^item> An \<^verbatim>\<open>AudioBufferSourceNode\<close> is a record of what was asked of it: the rate, the
    offset handed to \<^verbatim>\<open>start\<close>, and whether \<^verbatim>\<open>stop\<close> was called on it.
  \<^item> \<^verbatim>\<open>audioContext.resume()\<close> and \<^verbatim>\<open>console.error\<close> change no field of the component
    and are not represented. The request for the next animation frame is represented by
    the fact that \<open>updateProgress\<close> may be applied again in any state.
\<close>

subsection \<open>Data\<close>

record source_node =
  node_rate :: rat
  node_offset :: rat
  node_stopped :: bool

record player =
  isPlaying :: bool
  isLoading :: bool
  error :: "string option"
  duration :: rat
  currentTime :: rat
  playbackRate :: rat
  audioContext :: bool
  audioBuffer :: "rat option"
  sourceNode :: "source_node option"
  startTimeRef :: rat
  offsetRef :: rat

text \<open>
  \<open>audioContext\<close> says whether \<^verbatim>\<open>audioContextRef.current\<close> holds a context;
  \<open>audioBuffer\<close> is \<^verbatim>\<open>audioBufferRef.current\<close>, a decoded buffer being represented by its
  duration. The initial values are those of the \<^verbatim>\<open>useState\<close> and \<^verbatim>\<open>useRef\<close> calls.
\<close>

definition init_player :: player where
  "init_player =
     \<lparr>isPlaying = False, isLoading = False, error = None, duration = 0, currentTime = 0,
      playbackRate = 1, audioContext = False, audioBuffer = None, sourceNode = None,
      startTimeRef = 0, offsetRef = 0\<rparr>"

datatype decode_result = DecodeThrows | Decoded rat

subsection \<open>Loading a payload\<close>

definition stopAudio :: "player \<Rightarrow> player" where
  "stopAudio s = (if sourceNode s \<noteq> None then s\<lparr>sourceNode := None\<rparr> else s)\<lparr>isPlaying := False\<rparr>"

text \<open>The cleanup of the loading effect: it runs when the payload changes and on unmount.\<close>

definition cleanup :: "player \<Rightarrow> player" where
  "cleanup s = (let s1 = stopAudio s in if audioContext s1 then s1\<lparr>audioContext := False\<rparr> else s1)"

definition decode_error_message :: string where
  "decode_error_message = ''Unable to play audio. The format might not be supported.''"

definition initAudio :: "string \<Rightarrow> decode_result \<Rightarrow> player \<Rightarrow> player" where
  "initAudio audioBase64 res s =
     (if audioBase64 = [] then s
      else
        let s1 = s\<lparr>isLoading := True, error := None\<rparr>;
            s2 = (if \<not> audioContext s1 then s1\<lparr>audioContext := True\<rparr> else s1);
            s3 = (case res of
                    Decoded d \<Rightarrow>
                      s2\<lparr>audioBuffer := Some d, duration := d, offsetRef := 0,
                         currentTime := 0, isPlaying := False\<rparr>
                  | DecodeThrows \<Rightarrow> s2\<lparr>error := Some decode_error_message\<rparr>)
        in s3\<lparr>isLoading := False\<rparr>)"

subsection \<open>Transport handlers\<close>

definition playback_error_message :: string where
  "playback_error_message = ''Playback failed. Please try again.''"

definition playAudio :: "rat \<Rightarrow> bool \<Rightarrow> player \<Rightarrow> player" where
  "playAudio now throws s =
     (if \<not> audioContext s then s
      else if audioBuffer s = None then s
      else if throws then s\<lparr>error := Some playback_error_message, isPlaying := False\<rparr>
      else
        s\<lparr>sourceNode :=
             Some \<lparr>node_rate = playbackRate s, node_offset = offsetRef s, node_stopped = False\<rparr>,
          startTimeRef := now,
          isPlaying := True\<rparr>)"

definition pauseAudio :: "rat \<Rightarrow> player \<Rightarrow> player" where
  "pauseAudio now s =
     (let s1 = (if sourceNode s \<noteq> None then s\<lparr>sourceNode := None\<rparr> else s);
          s2 = (if audioContext s1 \<and> isPlaying s1 then
                  let elapsed = (now - startTimeRef s1) * playbackRate s1;
                      off = min (offsetRef s1 + elapsed) (duration s1)
                  in s1\<lparr>offsetRef := off, currentTime := off\<rparr>
                else s1)
      in s2\<lparr>isPlaying := False\<rparr>)"

definition handleEnded :: "player \<Rightarrow> player" where
  "handleEnded s = (stopAudio s)\<lparr>offsetRef := 0, currentTime := 0\<rparr>"

definition updateProgress :: "rat \<Rightarrow> player \<Rightarrow> player" where
  "updateProgress now s =
     (if isPlaying s \<and> audioContext s then
        let elapsed = (now - startTimeRef s) * playbackRate s;
            current = offsetRef s + elapsed
        in if current \<ge> duration s then handleEnded s else s\<lparr>currentTime := current\<rparr>
      else s)"

definition togglePlay :: "rat \<Rightarrow> bool \<Rightarrow> player \<Rightarrow> player" where
  "togglePlay now throws s =
     (if error s \<noteq> None then s
      else if isPlaying s then pauseAudio now s
      else
        let s1 = (if \<bar>duration s - offsetRef s\<bar> < 0.1
                  then s\<lparr>offsetRef := 0, currentTime := 0\<rparr> else s)
        in playAudio now throws s1)"

definition speeds :: "rat list" where
  "speeds = [0.75, 1, 1.25]"

text \<open>\<^verbatim>\<open>Array.prototype.indexOf\<close>: the first index holding the value, or \<open>-1\<close>.\<close>

fun indexOf :: "'a list \<Rightarrow> 'a \<Rightarrow> int" where
  "indexOf [] x = -1"
| "indexOf (y # ys) x =
     (if y = x then 0 else (let i = indexOf ys x in if i < 0 then -1 else i + 1))"

definition nextRate :: "rat \<Rightarrow> rat" where
  "nextRate r = (let nextIdx = (indexOf speeds r + 1) mod int (length speeds)
                 in speeds ! nat nextIdx)"

definition cycleSpeed :: "rat \<Rightarrow> bool \<Rightarrow> player \<Rightarrow> player" where
  "cycleSpeed now throws s =
     (if error s \<noteq> None then s
      else
        let newRate = nextRate (playbackRate s);
            s1 = (if isPlaying s \<and> audioContext s \<and> sourceNode s \<noteq> None then
                    let elapsedSinceStart = now - startTimeRef s
                    in s\<lparr>offsetRef := offsetRef s + elapsedSinceStart * playbackRate s,
                         startTimeRef := now,
                         sourceNode :=
                           (if throws then sourceNode s
                            else map_option (\<lambda>n. n\<lparr>node_rate := newRate\<rparr>) (sourceNode s))\<rparr>
                  else s)
        in s1\<lparr>playbackRate := newRate\<rparr>)"

definition handleSeek :: "rat \<Rightarrow> bool \<Rightarrow> rat \<Rightarrow> player \<Rightarrow> player" where
  "handleSeek now throws newTime s =
     (if error s \<noteq> None then s
      else
        let s1 = s\<lparr>offsetRef := newTime, currentTime := newTime\<rparr>
        in if isPlaying s1 then
             playAudio now throws
               (s1\<lparr>sourceNode := map_option (\<lambda>n. n\<lparr>node_stopped := True\<rparr>) (sourceNode s1)\<rparr>)
           else s1)"

subsection \<open>The slider\<close>




subsection \<open>Runs of the component\<close>

text \<open>
  The events the component can receive: a payload arriving with the outcome of its
  decoding, a click on the play button, a click on the speed button, a change of the
  slider, and an animation frame. Each carries what the browser supplies with it.
\<close>

datatype event =
    Load string decode_result
  | TogglePlay rat bool
  | CycleSpeed rat bool
  | Seek rat bool rat
  | Tick rat

fun step :: "player \<Rightarrow> event \<Rightarrow> player" where
  "step s (Load audioBase64 res) = initAudio audioBase64 res (cleanup s)"
| "step s (TogglePlay now throws) = togglePlay now throws s"
| "step s (CycleSpeed now throws) = cycleSpeed now throws s"
| "step s (Seek now throws newTime) = handleSeek now throws newTime s"
| "step s (Tick now) = updateProgress now s"

definition run :: "player \<Rightarrow> event list \<Rightarrow> player" where
  "run s evs = foldl step s evs"

text \<open>
  Three states used as concrete inputs: a ten-second buffer loaded and at rest; the same
  buffer playing from offset 0 since graph time 0 at rate 1; and that session after the
  animation frame at graph time 9.99, the last one before the end of the buffer.
\<close>

definition ready10 :: player where
  "ready10 =
     \<lparr>isPlaying = False, isLoading = False, error = None, duration = 10, currentTime = 0,
      playbackRate = 1, audioContext = True, audioBuffer = Some 10, sourceNode = None,
      startTimeRef = 0, offsetRef = 0\<rparr>"

definition playing10 :: player where
  "playing10 =
     \<lparr>isPlaying = True, isLoading = False, error = None, duration = 10, currentTime = 0,
      playbackRate = 1, audioContext = True, audioBuffer = Some 10,
      sourceNode = Some \<lparr>node_rate = 1, node_offset = 0, node_stopped = False\<rparr>,
      startTimeRef = 0, offsetRef = 0\<rparr>"

definition near_end10 :: player where
  "near_end10 = playing10\<lparr>currentTime := 9.99\<rparr>"


text \<open>The bound the offset is meant to keep.\<close>

definition offset_in_range :: "player \<Rightarrow> bool" where
  "offset_in_range s = (0 \<le> offsetRef s \<and> offsetRef s \<le> duration s)"

section \<open>Properties\<close>

lemmas handler_defs = stopAudio_def cleanup_def initAudio_def playAudio_def pauseAudio_def
  handleEnded_def updateProgress_def togglePlay_def cycleSpeed_def handleSeek_def

subsection \<open>The concrete states are reachable\<close>

lemma ready10_reachable: "run init_player [Load ''UklGRg=='' (Decoded 10)] = ready10"
  by (simp add: run_def init_player_def ready10_def initAudio_def cleanup_def stopAudio_def)

lemma playing10_reachable:
  "run init_player [Load ''UklGRg=='' (Decoded 10), TogglePlay 0 False] = playing10"
  by (simp add: run_def init_player_def playing10_def initAudio_def cleanup_def stopAudio_def
      togglePlay_def playAudio_def)

lemma near_end10_reachable:
  "run init_player [Load ''UklGRg=='' (Decoded 10), TogglePlay 0 False, Tick 9.99] = near_end10"
  by (simp add: run_def init_player_def playing10_def near_end10_def initAudio_def cleanup_def
      stopAudio_def togglePlay_def playAudio_def updateProgress_def)

subsection \<open>The play button\<close>

text \<open>
  The play button pauses through \<open>pauseAudio\<close>, and resumes through \<open>playAudio\<close> at the
  stored offset unless that offset is within 0.1 s of the end of the buffer.
\<close>

lemma togglePlay_pauses:
  "error s = None \<Longrightarrow> isPlaying s \<Longrightarrow> togglePlay now throws s = pauseAudio now s"
  by (simp add: togglePlay_def)

lemma togglePlay_resumes:
  "error s = None \<Longrightarrow> \<not> isPlaying s \<Longrightarrow> \<not> \<bar>duration s - offsetRef s\<bar> < 0.1 \<Longrightarrow>
     togglePlay now throws s = playAudio now throws s"
  by (simp add: togglePlay_def)

text \<open>The two functions behind the button, taken on their own.\<close>

lemma pauseAudio_bakes_offset:
  assumes "isPlaying s" and "audioContext s"
  shows "offsetRef (pauseAudio now s)
           = min (offsetRef s + (now - startTimeRef s) * playbackRate s) (duration s)"
    and "currentTime (pauseAudio now s) = offsetRef (pauseAudio now s)"
    and "\<not> isPlaying (pauseAudio now s)"
    and "sourceNode (pauseAudio now s) = None"
  using assms by (auto simp: pauseAudio_def Let_def)

lemma playAudio_starts_at_offset:
  assumes "audioContext s" and "audioBuffer s \<noteq> None"
  shows "playAudio now False s =
           s\<lparr>sourceNode :=
                Some \<lparr>node_rate = playbackRate s, node_offset = offsetRef s, node_stopped = False\<rparr>,
             startTimeRef := now, isPlaying := True\<rparr>"
  using assms by (auto simp: playAudio_def)

subsection \<open>The offset bound\<close>

text \<open>
  With a graph clock that does not run backwards and a rate that is not negative, the
  play button, the animation frame, a slider value between 0 and the duration, and a
  load keep the offset between 0 and the duration.
\<close>

lemma pauseAudio_in_range:
  assumes "offset_in_range s" and "startTimeRef s \<le> now" and "0 \<le> playbackRate s"
  shows "offset_in_range (pauseAudio now s)"
proof -
  from assms(2,3) have "0 \<le> (now - startTimeRef s) * playbackRate s" by simp
  with assms(1) show ?thesis
    by (auto simp: offset_in_range_def pauseAudio_def Let_def)
qed

lemma togglePlay_in_range:
  assumes "offset_in_range s" and "startTimeRef s \<le> now" and "0 \<le> playbackRate s"
  shows "offset_in_range (togglePlay now throws s)"
proof (cases "error s = None \<and> isPlaying s")
  case True
  then show ?thesis using pauseAudio_in_range [OF assms] by (simp add: togglePlay_def)
next
  case False
  with assms(1) show ?thesis
    by (auto simp: offset_in_range_def togglePlay_def playAudio_def Let_def)
qed

lemma updateProgress_in_range:
  "offset_in_range s \<Longrightarrow> offset_in_range (updateProgress now s)"
  by (auto simp: offset_in_range_def updateProgress_def handleEnded_def stopAudio_def Let_def)

lemma handleSeek_in_range:
  "offset_in_range s \<Longrightarrow> 0 \<le> t \<Longrightarrow> t \<le> duration s \<Longrightarrow>
     offset_in_range (handleSeek now throws t s)"
  by (auto simp: offset_in_range_def handleSeek_def playAudio_def Let_def)

lemma load_in_range:
  "offset_in_range s \<Longrightarrow> (\<And>d. res = Decoded d \<Longrightarrow> 0 \<le> d) \<Longrightarrow>
     offset_in_range (step s (Load audioBase64 res))"
  by (cases res)
    (auto simp: offset_in_range_def initAudio_def cleanup_def stopAudio_def Let_def)

subsection \<open>The speed button\<close>

text \<open>
  What \<open>cycleSpeed\<close> does when no error is set. At rest it changes the rate only. While
  a session plays it adds the elapsed time to the offset, restarts the clock reference,
  sets the rate of the same node, and leaves the projected position where it was.
\<close>

lemma cycleSpeed_at_rest:
  "error s = None \<Longrightarrow> \<not> isPlaying s \<Longrightarrow>
     cycleSpeed now throws s = s\<lparr>playbackRate := nextRate (playbackRate s)\<rparr>"
  by (simp add: cycleSpeed_def Let_def)

lemma cycleSpeed_while_playing:
  assumes "error s = None" and "isPlaying s" and "audioContext s" and "sourceNode s = Some n"
  shows "cycleSpeed now False s =
           s\<lparr>offsetRef := offsetRef s + (now - startTimeRef s) * playbackRate s,
             startTimeRef := now,
             sourceNode := Some (n\<lparr>node_rate := nextRate (playbackRate s)\<rparr>),
             playbackRate := nextRate (playbackRate s)\<rparr>"
  using assms by (simp add: cycleSpeed_def Let_def)

lemma cycleSpeed_projection_continuous:
  assumes "error s = None" and "isPlaying s" and "audioContext s" and "sourceNode s \<noteq> None"
  shows "offsetRef (cycleSpeed now throws s)
           + (now - startTimeRef (cycleSpeed now throws s)) * playbackRate (cycleSpeed now throws s)
         = offsetRef s + (now - startTimeRef s) * playbackRate s"
    and "currentTime (cycleSpeed now throws s) = currentTime s"
  using assms by (auto simp: cycleSpeed_def Let_def)

lemma cycleSpeed_agrees_with_pause_before_end:
  assumes "error s = None" and "isPlaying s" and "audioContext s" and "sourceNode s \<noteq> None"
    and "offsetRef s + (now - startTimeRef s) * playbackRate s \<le> duration s"
  shows "offsetRef (cycleSpeed now throws s) = offsetRef (pauseAudio now s)"
  using assms by (auto simp: cycleSpeed_def pauseAudio_def Let_def)

subsection \<open>The playback rate\<close>

lemma nextRate_cycle: "nextRate 0.75 = 1" "nextRate 1 = 1.25" "nextRate 1.25 = 0.75"
  by (simp_all add: nextRate_def speeds_def)

lemma indexOf_speeds_cases:
  "indexOf speeds r = (if r = 0.75 then 0 else if r = 1 then 1 else if r = 1.25 then 2 else -1)"
  by (simp add: speeds_def)

lemma nextRate_in_speeds: "nextRate r \<in> set speeds"
  by (simp add: nextRate_def indexOf_speeds_cases) (simp add: speeds_def)

lemma step_rate_other:
  "(\<forall>now thr. e \<noteq> CycleSpeed now thr) \<Longrightarrow> playbackRate (step s e) = playbackRate s"
  by (cases e) (auto simp: handler_defs Let_def split: decode_result.splits)

lemma cycleSpeed_rate:
  "playbackRate (cycleSpeed now thr s)
     = (if error s = None then nextRate (playbackRate s) else playbackRate s)"
  by (simp add: cycleSpeed_def Let_def)

lemma step_rate_inv:
  assumes "playbackRate s \<in> set speeds"
  shows "playbackRate (step s e) \<in> set speeds"
proof (cases "\<exists>now thr. e = CycleSpeed now thr")
  case True
  then obtain now thr where "e = CycleSpeed now thr" by blast
  then show ?thesis using assms nextRate_in_speeds by (simp add: cycleSpeed_rate)
next
  case False
  then have "playbackRate (step s e) = playbackRate s" using step_rate_other by blast
  with assms show ?thesis by simp
qed

lemma run_rate_inv:
  "playbackRate s \<in> set speeds \<Longrightarrow> playbackRate (run s evs) \<in> set speeds"
  unfolding run_def
proof (induction evs arbitrary: s)
  case Nil
  then show ?case by simp
next
  case (Cons e evs)
  from Cons.prems have "playbackRate (step s e) \<in> set speeds" by (rule step_rate_inv)
  then show ?case using Cons.IH by simp
qed

section \<open>Claims\<close>

text \<open>
  C1, as stated, fails. From rest a session is started by the play button only, and the
  button resets an offset within 0.1 s of the end to 0 first. A ten-second buffer paused
  at graph time 9.95 has offset 9.95; the next click starts the session at 0.
\<close>

theorem C1_counterexample:
  "error playing10 = None \<and> isPlaying playing10
   \<and> offsetRef (togglePlay 9.95 False playing10) = 9.95
   \<and> offsetRef (togglePlay 9.95 False playing10)
       = min (offsetRef playing10 + (9.95 - startTimeRef playing10) * playbackRate playing10)
           (duration playing10)
   \<and> isPlaying (togglePlay 11 False (togglePlay 9.95 False playing10))
   \<and> sourceNode (togglePlay 11 False (togglePlay 9.95 False playing10))
       = Some \<lparr>node_rate = 1, node_offset = 0, node_stopped = False\<rparr>
   \<and> sourceNode (togglePlay 11 False (togglePlay 9.95 False playing10))
       \<noteq> Some \<lparr>node_rate = 1, node_offset = offsetRef (togglePlay 9.95 False playing10),
                 node_stopped = False\<rparr>"
  by (simp add: playing10_def togglePlay_def pauseAudio_def playAudio_def Let_def)

text \<open>
  C1, amended. With no error set, a click on the play button while playing is
  \<open>pauseAudio\<close>: it sets the offset to \<open>min (offset + (now - start) * rate) duration\<close>,
  where \<open>now - start\<close> is the elapsed graph-clock time, and leaves the engine at rest with
  no session. The next click, when its session starts, starts it at exactly that offset
  if the offset is at least 0.1 s away from the duration, and at 0 otherwise.
\<close>

theorem C1_pause_bakes_offset_and_play_resumes_short_of_end:
  assumes "error s = None" and "isPlaying s" and "audioContext s" and "audioBuffer s \<noteq> None"
  shows "togglePlay now throws s = pauseAudio now s
       \<and> offsetRef (togglePlay now throws s)
           = min (offsetRef s + (now - startTimeRef s) * playbackRate s) (duration s)
       \<and> currentTime (togglePlay now throws s) = offsetRef (togglePlay now throws s)
       \<and> \<not> isPlaying (togglePlay now throws s)
       \<and> sourceNode (togglePlay now throws s) = None
       \<and> (\<not> \<bar>duration s - offsetRef (togglePlay now throws s)\<bar> < 0.1 \<longrightarrow>
            isPlaying (togglePlay now' False (togglePlay now throws s))
          \<and> startTimeRef (togglePlay now' False (togglePlay now throws s)) = now'
          \<and> offsetRef (togglePlay now' False (togglePlay now throws s))
              = offsetRef (togglePlay now throws s)
          \<and> sourceNode (togglePlay now' False (togglePlay now throws s))
              = Some \<lparr>node_rate = playbackRate s,
                      node_offset = offsetRef (togglePlay now throws s),
                      node_stopped = False\<rparr>)
       \<and> (\<bar>duration s - offsetRef (togglePlay now throws s)\<bar> < 0.1 \<longrightarrow>
            isPlaying (togglePlay now' False (togglePlay now throws s))
          \<and> offsetRef (togglePlay now' False (togglePlay now throws s)) = 0
          \<and> sourceNode (togglePlay now' False (togglePlay now throws s))
              = Some \<lparr>node_rate = playbackRate s, node_offset = 0, node_stopped = False\<rparr>)"
proof -
  let ?p = "pauseAudio now s"
  let ?fresh = "\<lambda>x. Some \<lparr>node_rate = playbackRate s, node_offset = x, node_stopped = False\<rparr>"
  from assms have t: "togglePlay now throws s = ?p" by (simp add: togglePlay_def)
  from assms have off: "offsetRef ?p
      = min (offsetRef s + (now - startTimeRef s) * playbackRate s) (duration s)"
    and rest: "currentTime ?p = offsetRef ?p" "\<not> isPlaying ?p" "sourceNode ?p = None"
    by (simp_all add: pauseAudio_def Let_def)
  from assms have q: "error ?p = None" "audioContext ?p" "audioBuffer ?p \<noteq> None"
    "duration ?p = duration s" "playbackRate ?p = playbackRate s"
    by (simp_all add: pauseAudio_def Let_def)
  have far: "isPlaying (togglePlay now' False ?p)
      \<and> startTimeRef (togglePlay now' False ?p) = now'
      \<and> offsetRef (togglePlay now' False ?p) = offsetRef ?p
      \<and> sourceNode (togglePlay now' False ?p) = ?fresh (offsetRef ?p)"
    if "\<not> \<bar>duration s - offsetRef ?p\<bar> < 0.1"
    using that q rest by (simp add: togglePlay_def playAudio_def)
  have near: "isPlaying (togglePlay now' False ?p)
      \<and> offsetRef (togglePlay now' False ?p) = 0
      \<and> sourceNode (togglePlay now' False ?p) = ?fresh 0"
    if "\<bar>duration s - offsetRef ?p\<bar> < 0.1"
    using that q rest by (simp add: togglePlay_def playAudio_def)
  from off rest far near show ?thesis unfolding t by blast
qed

theorem C1_witness:
  "error playing10 = None \<and> isPlaying playing10 \<and> audioContext playing10
   \<and> audioBuffer playing10 \<noteq> None
   \<and> offsetRef (togglePlay 3 False playing10) = 3
   \<and> \<not> \<bar>duration playing10 - offsetRef (togglePlay 3 False playing10)\<bar> < 0.1
   \<and> sourceNode (togglePlay 5 False (togglePlay 3 False playing10))
       = Some \<lparr>node_rate = playbackRate playing10,
               node_offset = offsetRef (togglePlay 3 False playing10), node_stopped = False\<rparr>
   \<and> offsetRef (togglePlay 12 False playing10) = 10
   \<and> \<bar>duration playing10 - offsetRef (togglePlay 12 False playing10)\<bar> < 0.1
   \<and> sourceNode (togglePlay 15 False (togglePlay 12 False playing10))
       = Some \<lparr>node_rate = playbackRate playing10, node_offset = 0, node_stopped = False\<rparr>"
proof -
  have h: "error playing10 = None" "isPlaying playing10" "audioContext playing10"
    "audioBuffer playing10 \<noteq> None"
    by (simp_all add: playing10_def)
  have e: "offsetRef (togglePlay 3 False playing10) = 3"
    "offsetRef (togglePlay 12 False playing10) = 10"
    by (simp_all add: playing10_def togglePlay_def pauseAudio_def Let_def)
  have d: "\<not> \<bar>duration playing10 - offsetRef (togglePlay 3 False playing10)\<bar> < 0.1"
    "\<bar>duration playing10 - offsetRef (togglePlay 12 False playing10)\<bar> < 0.1"
    unfolding e by (simp_all add: playing10_def)
  from C1_pause_bakes_offset_and_play_resumes_short_of_end [OF h, of 3 False 5]
    C1_pause_bakes_offset_and_play_resumes_short_of_end [OF h, of 12 False 15] h e d
  show ?thesis by blast
qed

text \<open>
  C2. The run below loads a ten-second buffer, starts it at graph time 0, renders the frame
  at 9.99 and then receives a click on the speed button at 10.01, before the next frame.
  The engine is still playing and the offset is 10.01, above the duration.
\<close>

theorem C2_rate_change_pushes_offset_past_duration:
  "isPlaying (run init_player [Load ''UklGRg=='' (Decoded 10), TogglePlay 0 False, Tick 9.99,
       CycleSpeed 10.01 False])
   \<and> duration (run init_player [Load ''UklGRg=='' (Decoded 10), TogglePlay 0 False, Tick 9.99,
       CycleSpeed 10.01 False]) = 10
   \<and> offsetRef (run init_player [Load ''UklGRg=='' (Decoded 10), TogglePlay 0 False, Tick 9.99,
       CycleSpeed 10.01 False]) = 10.01
   \<and> \<not> offset_in_range (run init_player [Load ''UklGRg=='' (Decoded 10), TogglePlay 0 False,
       Tick 9.99, CycleSpeed 10.01 False])"
  by (simp add: run_def init_player_def handler_defs offset_in_range_def Let_def)

text \<open>
  C3, as stated, fails: when the projection reaches the duration the offset is 0 at once,
  not the duration.
\<close>

theorem C3_counterexample:
  "isPlaying playing10
   \<and> \<not> isPlaying (updateProgress 10 playing10)
   \<and> duration (updateProgress 10 playing10) = 10
   \<and> offsetRef (updateProgress 10 playing10) = 0
   \<and> offsetRef (updateProgress 10 playing10) \<noteq> duration (updateProgress 10 playing10)"
  by (simp add: playing10_def updateProgress_def handleEnded_def stopAudio_def Let_def)

text \<open>
  C3, amended. When the projected time reaches the duration, the animation frame stops the
  engine, discards the session and resets the offset and the displayed time to 0 at once:
  the offset is not held at the duration. A click on the play button then starts the new
  session at 0. If the engine is paused at that moment instead, the offset is the duration,
  and the play button resets it to 0 before it starts the new session at 0.
\<close>

theorem C3_end_resets_offset_and_replay_starts_at_zero:
  assumes "isPlaying s" and "audioContext s"
    and "duration s \<le> offsetRef s + (now - startTimeRef s) * playbackRate s"
  shows "\<not> isPlaying (updateProgress now s)
       \<and> sourceNode (updateProgress now s) = None
       \<and> offsetRef (updateProgress now s) = 0
       \<and> currentTime (updateProgress now s) = 0
       \<and> duration (updateProgress now s) = duration s
       \<and> offsetRef (pauseAudio now s) = duration s
       \<and> (error s = None \<and> audioBuffer s \<noteq> None \<longrightarrow>
            isPlaying (togglePlay now' False (updateProgress now s))
          \<and> offsetRef (togglePlay now' False (updateProgress now s)) = 0
          \<and> sourceNode (togglePlay now' False (updateProgress now s))
              = Some \<lparr>node_rate = playbackRate s, node_offset = 0, node_stopped = False\<rparr>
          \<and> isPlaying (togglePlay now' False (pauseAudio now s))
          \<and> offsetRef (togglePlay now' False (pauseAudio now s)) = 0
          \<and> sourceNode (togglePlay now' False (pauseAudio now s))
              = Some \<lparr>node_rate = playbackRate s, node_offset = 0, node_stopped = False\<rparr>)"
  using assms
  by (auto simp: updateProgress_def handleEnded_def stopAudio_def pauseAudio_def
      togglePlay_def playAudio_def Let_def)

theorem C3_witness:
  "isPlaying playing10 \<and> audioContext playing10
   \<and> duration playing10
       \<le> offsetRef playing10 + (12 - startTimeRef playing10) * playbackRate playing10
   \<and> error playing10 = None \<and> audioBuffer playing10 \<noteq> None
   \<and> offsetRef (updateProgress 12 playing10) = 0
   \<and> offsetRef (pauseAudio 12 playing10) = 10
   \<and> sourceNode (togglePlay 15 False (updateProgress 12 playing10))
       = Some \<lparr>node_rate = 1, node_offset = 0, node_stopped = False\<rparr>
   \<and> sourceNode (togglePlay 15 False (pauseAudio 12 playing10))
       = Some \<lparr>node_rate = 1, node_offset = 0, node_stopped = False\<rparr>"
proof -
  have h: "isPlaying playing10" "audioContext playing10"
    "duration playing10
       \<le> offsetRef playing10 + (12 - startTimeRef playing10) * playbackRate playing10"
    and g: "error playing10 = None" "audioBuffer playing10 \<noteq> None"
      "playbackRate playing10 = 1" "duration playing10 = 10"
    by (simp_all add: playing10_def)
  from C3_end_resets_offset_and_replay_starts_at_zero [OF h, of 15] h g
  show ?thesis by simp
qed

text \<open>
  C4. In the state after the frame at 9.99, a click on the speed button at graph time 10.01
  sets the offset to 10.01, although \<open>min\<close> of the baked position and the duration is 10,
  which is what \<open>pauseAudio\<close> stores at the same instant.
\<close>

theorem C4_rate_change_does_not_clamp:
  "error near_end10 = None \<and> isPlaying near_end10
   \<and> offsetRef (cycleSpeed 10.01 False near_end10) = 10.01
   \<and> min (offsetRef near_end10 + (10.01 - startTimeRef near_end10) * playbackRate near_end10)
         (duration near_end10) = 10
   \<and> offsetRef (pauseAudio 10.01 near_end10) = 10"
  by (simp add: near_end10_def playing10_def cycleSpeed_def pauseAudio_def Let_def)



text \<open>
  C6, as stated, fails: the animation frame compares with the duration itself. At a
  projected time of 9.95, within 0.1 of the ten-second duration, the engine goes on playing.
\<close>

theorem C6_counterexample:
  "isPlaying playing10 \<and> audioContext playing10
   \<and> offsetRef playing10 + (9.95 - startTimeRef playing10) * playbackRate playing10 = 9.95
   \<and> \<bar>duration playing10 - 9.95\<bar> < 0.1
   \<and> isPlaying (updateProgress 9.95 playing10)
   \<and> currentTime (updateProgress 9.95 playing10) = 9.95"
  by (simp add: playing10_def updateProgress_def Let_def)

text \<open>
  C6, amended. While playing, the animation frame ends playback by its own comparison,
  with no signal from the audio hardware, exactly when the projected time
  \<open>offset + (now - start) * rate\<close> is at least the duration: the engine is then at rest
  with the session discarded and the offset and displayed time at 0. Below the duration,
  whatever the distance, the frame only updates the displayed time. The comparison has
  no tolerance.
\<close>

theorem C6_projection_ends_at_duration_without_tolerance:
  assumes "isPlaying s" and "audioContext s"
  shows "(duration s \<le> offsetRef s + (now - startTimeRef s) * playbackRate s \<longrightarrow>
            updateProgress now s = handleEnded s
          \<and> \<not> isPlaying (updateProgress now s)
          \<and> sourceNode (updateProgress now s) = None
          \<and> offsetRef (updateProgress now s) = 0
          \<and> currentTime (updateProgress now s) = 0)
       \<and> (offsetRef s + (now - startTimeRef s) * playbackRate s < duration s \<longrightarrow>
            updateProgress now s
              = s\<lparr>currentTime := offsetRef s + (now - startTimeRef s) * playbackRate s\<rparr>
          \<and> isPlaying (updateProgress now s))"
  using assms by (auto simp: updateProgress_def handleEnded_def stopAudio_def Let_def)

theorem C6_witness:
  "isPlaying playing10 \<and> audioContext playing10
   \<and> duration playing10
       \<le> offsetRef playing10 + (10 - startTimeRef playing10) * playbackRate playing10
   \<and> \<not> isPlaying (updateProgress 10 playing10)
   \<and> offsetRef playing10 + (9.95 - startTimeRef playing10) * playbackRate playing10
       < duration playing10
   \<and> isPlaying (updateProgress 9.95 playing10)"
proof -
  have h: "isPlaying playing10" "audioContext playing10"
    and g: "duration playing10
              \<le> offsetRef playing10 + (10 - startTimeRef playing10) * playbackRate playing10"
      "offsetRef playing10 + (9.95 - startTimeRef playing10) * playbackRate playing10
         < duration playing10"
    by (simp_all add: playing10_def)
  from C6_projection_ends_at_duration_without_tolerance [OF h, of 10]
    C6_projection_ends_at_duration_without_tolerance [OF h, of "9.95"] h g
  show ?thesis by blast
qed

text \<open>
  C7, as stated, fails: after a start that throws, the error is set, and a second click on
  the play button, which would start, is ignored.
\<close>

theorem C7_counterexample:
  "error ready10 = None \<and> \<not> isPlaying ready10
   \<and> isPlaying (togglePlay 1 False ready10)
   \<and> error (togglePlay 0 True ready10) = Some playback_error_message
   \<and> togglePlay 1 False (togglePlay 0 True ready10) = togglePlay 0 True ready10
   \<and> \<not> isPlaying (togglePlay 1 False (togglePlay 0 True ready10))"
  by (simp add: ready10_def togglePlay_def playAudio_def Let_def)

text \<open>
  C7, amended. When the start of a session throws, the engine sets a non-empty error
  message and is not playing, with the session reference untouched. The state is the
  error state, not the rest state: the play button, the slider and the speed button do
  nothing while the error is set, and the next payload that loads clears it.
\<close>

theorem C7_start_failure_sets_error_and_blocks_transport:
  assumes "error s = None" and "\<not> isPlaying s" and "audioContext s" and "audioBuffer s \<noteq> None"
  shows "error (togglePlay now True s) = Some playback_error_message
       \<and> playback_error_message \<noteq> []
       \<and> \<not> isPlaying (togglePlay now True s)
       \<and> sourceNode (togglePlay now True s) = sourceNode s
       \<and> togglePlay now' throws (togglePlay now True s) = togglePlay now True s
       \<and> handleSeek now' throws t (togglePlay now True s) = togglePlay now True s
       \<and> cycleSpeed now' throws (togglePlay now True s) = togglePlay now True s
       \<and> (audioBase64 \<noteq> [] \<longrightarrow>
            error (step (togglePlay now True s) (Load audioBase64 (Decoded d))) = None)"
  using assms
  by (auto simp: togglePlay_def playAudio_def handleSeek_def cycleSpeed_def initAudio_def
      playback_error_message_def Let_def)

theorem C7_witness:
  "error ready10 = None \<and> \<not> isPlaying ready10 \<and> audioContext ready10
   \<and> audioBuffer ready10 \<noteq> None
   \<and> error (togglePlay 0 True ready10) = Some playback_error_message
   \<and> togglePlay 1 False (togglePlay 0 True ready10) = togglePlay 0 True ready10
   \<and> ''UklGRg=='' \<noteq> []
   \<and> error (step (togglePlay 0 True ready10) (Load ''UklGRg=='' (Decoded 10))) = None"
proof -
  have h: "error ready10 = None" "\<not> isPlaying ready10" "audioContext ready10"
    "audioBuffer ready10 \<noteq> None"
    by (simp_all add: ready10_def)
  have g: "''UklGRg=='' \<noteq> []" by simp
  from C7_start_failure_sets_error_and_blocks_transport
    [OF h, of 0 1 False _ "''UklGRg==''" 10] h g
  show ?thesis by blast
qed

text \<open>
  C8. A payload whose decoding fails leaves the engine with a non-empty error message and
  not playing. While an error is set, the play button, the slider and the speed button
  leave the state exactly as it is. A payload that decodes clears the error.
\<close>

theorem C8_decode_failure_errored_rejects_transport:
  "(audioBase64 \<noteq> [] \<longrightarrow>
      error (initAudio audioBase64 DecodeThrows s) = Some decode_error_message
    \<and> error (step s (Load audioBase64 DecodeThrows)) = Some decode_error_message
    \<and> \<not> isPlaying (step s (Load audioBase64 DecodeThrows))
    \<and> error (step s (Load audioBase64 (Decoded d))) = None)
   \<and> decode_error_message \<noteq> []
   \<and> (error s \<noteq> None \<longrightarrow>
        togglePlay now throws s = s
      \<and> handleSeek now throws t s = s
      \<and> cycleSpeed now throws s = s)"
  by (auto simp: initAudio_def cleanup_def stopAudio_def togglePlay_def handleSeek_def
      cycleSpeed_def decode_error_message_def Let_def)

theorem C8_witness:
  "''UklGRg=='' \<noteq> []
   \<and> error (step init_player (Load ''UklGRg=='' DecodeThrows)) = Some decode_error_message
   \<and> error (step init_player (Load ''UklGRg=='' DecodeThrows)) \<noteq> None
   \<and> togglePlay 0 False (step init_player (Load ''UklGRg=='' DecodeThrows))
       = step init_player (Load ''UklGRg=='' DecodeThrows)
   \<and> handleSeek 0 False 5 (step init_player (Load ''UklGRg=='' DecodeThrows))
       = step init_player (Load ''UklGRg=='' DecodeThrows)
   \<and> cycleSpeed 0 False (step init_player (Load ''UklGRg=='' DecodeThrows))
       = step init_player (Load ''UklGRg=='' DecodeThrows)"
proof -
  have g: "''UklGRg=='' \<noteq> []" by simp
  from g C8_decode_failure_errored_rejects_transport
    [of "''UklGRg==''" init_player _ 0 False 5]
    C8_decode_failure_errored_rejects_transport
    [of "''UklGRg==''" "step init_player (Load ''UklGRg=='' DecodeThrows)" _ 0 False 5]
  show ?thesis by (simp del: step.simps)
qed

text \<open>
  C9. With no error set and the engine at rest, whenever the offset is less than 0.1 s away
  from the duration the play button first resets the offset and the displayed time to 0,
  and a session that starts then starts at 0. This holds for any such state, and in
  particular for one whose offset was put there by the slider.
\<close>

theorem C9_toggle_near_end_restarts_from_zero:
  assumes "error s = None" and "\<not> isPlaying s" and "\<bar>duration s - offsetRef s\<bar> < 0.1"
  shows "offsetRef (togglePlay now throws s) = 0
       \<and> currentTime (togglePlay now throws s) = 0
       \<and> (audioContext s \<and> audioBuffer s \<noteq> None \<longrightarrow>
            isPlaying (togglePlay now False s)
          \<and> startTimeRef (togglePlay now False s) = now
          \<and> sourceNode (togglePlay now False s)
              = Some \<lparr>node_rate = playbackRate s, node_offset = 0, node_stopped = False\<rparr>)
       \<and> (\<bar>duration s - t\<bar> < 0.1 \<longrightarrow>
            offsetRef (handleSeek now0 throws0 t s) = t
          \<and> offsetRef (togglePlay now throws (handleSeek now0 throws0 t s)) = 0
          \<and> currentTime (togglePlay now throws (handleSeek now0 throws0 t s)) = 0
          \<and> (audioContext s \<and> audioBuffer s \<noteq> None \<longrightarrow>
               isPlaying (togglePlay now False (handleSeek now0 throws0 t s))
             \<and> sourceNode (togglePlay now False (handleSeek now0 throws0 t s))
                 = Some \<lparr>node_rate = playbackRate s, node_offset = 0, node_stopped = False\<rparr>))"
  using assms by (auto simp: togglePlay_def playAudio_def handleSeek_def Let_def)

theorem C9_witness:
  "error (handleSeek 0 False 9.95 ready10) = None
   \<and> \<not> isPlaying (handleSeek 0 False 9.95 ready10)
   \<and> \<bar>duration (handleSeek 0 False 9.95 ready10) - offsetRef (handleSeek 0 False 9.95 ready10)\<bar>
       < 0.1
   \<and> audioContext (handleSeek 0 False 9.95 ready10)
   \<and> audioBuffer (handleSeek 0 False 9.95 ready10) \<noteq> None
   \<and> \<bar>duration (handleSeek 0 False 9.95 ready10) - 9.97\<bar> < 0.1
   \<and> offsetRef (togglePlay 1 False (handleSeek 0 False 9.95 ready10)) = 0
   \<and> currentTime (togglePlay 1 False (handleSeek 0 False 9.95 ready10)) = 0
   \<and> sourceNode (togglePlay 1 False (handleSeek 0 False 9.95 ready10))
       = Some \<lparr>node_rate = 1, node_offset = 0, node_stopped = False\<rparr>
   \<and> offsetRef (togglePlay 1 False (handleSeek 0 False 9.97 (handleSeek 0 False 9.95 ready10)))
       = 0"
proof -
  have h: "error (handleSeek 0 False 9.95 ready10) = None"
    "\<not> isPlaying (handleSeek 0 False 9.95 ready10)"
    "\<bar>duration (handleSeek 0 False 9.95 ready10) - offsetRef (handleSeek 0 False 9.95 ready10)\<bar>
       < 0.1"
    and g: "audioContext (handleSeek 0 False 9.95 ready10)"
      "audioBuffer (handleSeek 0 False 9.95 ready10) \<noteq> None"
      "playbackRate (handleSeek 0 False 9.95 ready10) = 1"
      "\<bar>duration (handleSeek 0 False 9.95 ready10) - 9.97\<bar> < 0.1"
    by (simp_all add: handleSeek_def ready10_def)
  from C9_toggle_near_end_restarts_from_zero [OF h, of 1 False "9.97" 0 False] h g
  show ?thesis by simp
qed

text \<open>
  C10. The playback rate is always one of 0.75, 1 and 1.25: it starts at 1, it stays in the
  list after every run of events, no handler but \<open>cycleSpeed\<close> changes it, and
  \<open>cycleSpeed\<close> moves it to the next entry of the list in the order
  0.75, 1, 1.25, 0.75 (and leaves it alone while an error is set).
\<close>

theorem C10_rate_always_in_speeds:
  "set speeds = {0.75, 1, 1.25}
   \<and> playbackRate init_player = 1
   \<and> playbackRate (run init_player evs) \<in> set speeds
   \<and> ((\<forall>now thr. e \<noteq> CycleSpeed now thr) \<longrightarrow> playbackRate (step s e) = playbackRate s)
   \<and> (error s = None \<longrightarrow> playbackRate (cycleSpeed now thr s) = nextRate (playbackRate s))
   \<and> (error s \<noteq> None \<longrightarrow> playbackRate (cycleSpeed now thr s) = playbackRate s)
   \<and> nextRate 0.75 = 1 \<and> nextRate 1 = 1.25 \<and> nextRate 1.25 = 0.75
   \<and> nextRate r \<in> set speeds"
proof -
  have c1: "set speeds = {0.75, 1, 1.25}" by (simp add: speeds_def)
  have c2: "playbackRate init_player = 1" by (simp add: init_player_def)
  have "playbackRate init_player \<in> set speeds" by (simp add: init_player_def speeds_def)
  then have c3: "playbackRate (run init_player evs) \<in> set speeds" by (rule run_rate_inv)
  have c4: "(\<forall>now thr. e \<noteq> CycleSpeed now thr) \<longrightarrow> playbackRate (step s e) = playbackRate s"
    using step_rate_other by blast
  have c5: "error s = None \<longrightarrow> playbackRate (cycleSpeed now thr s) = nextRate (playbackRate s)"
    by (simp add: cycleSpeed_rate)
  have c6: "error s \<noteq> None \<longrightarrow> playbackRate (cycleSpeed now thr s) = playbackRate s"
    by (simp add: cycleSpeed_rate)
  from c1 c2 c3 c4 c5 c6 nextRate_cycle nextRate_in_speeds [of r] show ?thesis
    by blast
qed

theorem C10_witness:
  "playbackRate (run init_player [Load ''UklGRg=='' (Decoded 10), CycleSpeed 0 False,
       TogglePlay 0 False, CycleSpeed 2 False]) \<in> set speeds
   \<and> (\<forall>now thr. Tick 1 \<noteq> CycleSpeed now thr)
   \<and> playbackRate (step ready10 (Tick 1)) = playbackRate ready10
   \<and> error ready10 = None
   \<and> playbackRate (cycleSpeed 0 False ready10) = nextRate (playbackRate ready10)
   \<and> error (ready10\<lparr>error := Some decode_error_message\<rparr>) \<noteq> None
   \<and> playbackRate (cycleSpeed 0 False (ready10\<lparr>error := Some decode_error_message\<rparr>))
       = playbackRate (ready10\<lparr>error := Some decode_error_message\<rparr>)"
proof -
  have h1: "\<forall>now thr. Tick 1 \<noteq> CycleSpeed now thr" by simp
  have h2: "error ready10 = None" by (simp add: ready10_def)
  have h3: "error (ready10\<lparr>error := Some decode_error_message\<rparr>) \<noteq> None" by simp
  from h1 h2 h3
    C10_rate_always_in_speeds [where evs = "[Load ''UklGRg=='' (Decoded 10),
       CycleSpeed 0 False, TogglePlay 0 False, CycleSpeed 2 False]" and e = "Tick 1"
       and s = ready10 and now = 0 and thr = False]
    C10_rate_always_in_speeds [where s = "ready10\<lparr>error := Some decode_error_message\<rparr>"
       and now = 0 and thr = False]
  show ?thesis by blast
qed

end
